theory Spec2Isabelle
  imports Complex_Main
begin

section \<open>Python values and the configuration mapping\<close>

text \<open>
  The program is the single function \<^verbatim>\<open>main(config, tr_stream, dev_stream, use_bokeh)\<close> of
  \<^verbatim>\<open>src/__init__.py\<close>. It is Python 2 code (it concatenates the lists returned by
  \<^verbatim>\<open>dict.values()\<close> and formats tuples with a width), so the comparisons below follow
  Python 2: \<^verbatim>\<open>None\<close> is smaller than every number and every number is smaller than
  every string. A float is modelled by the rational it denotes (NaN and the infinities
  are outside the model, and so is overflow of a product).
\<close>

datatype pyval =
    PyNone
  | PyBool bool
  | PyInt int
  | PyFloat rat
  | PyStr string

datatype error =
    KeyError string
  | UnboundLocalError string
  | TypeError string
  | ValueError string
  | Raised string

type_synonym 'a result = "error + 'a"

type_synonym config = "string \<rightharpoonup> pyval"

text \<open>Sequencing of statements: an exception of the first ends the function.\<close>

fun and_then :: "'a result \<Rightarrow> ('a \<Rightarrow> 'b result) \<Rightarrow> 'b result" where
  "and_then (Inl e) f = Inl e"
| "and_then (Inr x) f = f x"

text \<open>\<^verbatim>\<open>config[k]\<close>: a missing key raises KeyError.\<close>

definition getitem :: "config \<Rightarrow> string \<Rightarrow> pyval result" where
  "getitem config k = (case config k of None \<Rightarrow> Inl (KeyError k) | Some v \<Rightarrow> Inr v)"

text \<open>The numeric value of a bool, an int or a float.\<close>

fun py_num :: "pyval \<Rightarrow> rat option" where
  "py_num PyNone = None"
| "py_num (PyBool b) = Some (if b then 1 else 0)"
| "py_num (PyInt i) = Some (of_int i)"
| "py_num (PyFloat r) = Some r"
| "py_num (PyStr s) = None"

text \<open>\<^verbatim>\<open>a == b\<close>: numbers are compared by value, everything else structurally.\<close>

definition py_eq :: "pyval \<Rightarrow> pyval \<Rightarrow> bool" where
  "py_eq a b =
     (case (py_num a, py_num b) of
        (Some x, Some y) \<Rightarrow> x = y
      | (None, None) \<Rightarrow> a = b
      | _ \<Rightarrow> False)"

text \<open>
  \<^verbatim>\<open>v < n\<close>, \<^verbatim>\<open>v > n\<close> and \<^verbatim>\<open>v >= n\<close> for a numeric literal \<open>n\<close>, the only
  comparisons \<^verbatim>\<open>main\<close> makes.
\<close>

fun py_lt :: "pyval \<Rightarrow> rat \<Rightarrow> bool" where
  "py_lt PyNone n = True"
| "py_lt (PyStr s) n = False"
| "py_lt v n = (the (py_num v) < n)"

fun py_gt :: "pyval \<Rightarrow> rat \<Rightarrow> bool" where
  "py_gt PyNone n = False"
| "py_gt (PyStr s) n = True"
| "py_gt v n = (the (py_num v) > n)"

fun py_ge :: "pyval \<Rightarrow> rat \<Rightarrow> bool" where
  "py_ge PyNone n = False"
| "py_ge (PyStr s) n = True"
| "py_ge v n = (the (py_num v) \<ge> n)"

text \<open>\<^verbatim>\<open>if v:\<close>, the truth value of a Python value.\<close>

fun truthy :: "pyval \<Rightarrow> bool" where
  "truthy PyNone = False"
| "truthy (PyBool b) = b"
| "truthy (PyInt i) = (i \<noteq> 0)"
| "truthy (PyFloat r) = (r \<noteq> 0)"
| "truthy (PyStr s) = (s \<noteq> [])"

text \<open>\<^verbatim>\<open>v * 2\<close>.\<close>

fun py_mul2 :: "pyval \<Rightarrow> pyval result" where
  "py_mul2 PyNone = Inl (TypeError ''unsupported operand type(s) for *'')"
| "py_mul2 (PyBool b) = Inr (PyInt (if b then 2 else 0))"
| "py_mul2 (PyInt i) = Inr (PyInt (i * 2))"
| "py_mul2 (PyFloat r) = Inr (PyFloat (r * 2))"
| "py_mul2 (PyStr s) = Inr (PyStr (s @ s))"

section \<open>The objects of the framework\<close>

text \<open>
  \<^verbatim>\<open>main\<close> only builds objects of Theano, Blocks and the sibling modules
  \<^verbatim>\<open>model\<close>, \<^verbatim>\<open>checkpoint\<close> and \<^verbatim>\<open>sampling\<close> and hands them to one another. A
  constructor call is modelled by a datatype constructor that records its arguments,
  in the order of the call; an attribute of a brick by \<open>attr\<close>.
\<close>

datatype brick =
    BidirectionalEncoder pyval pyval pyval
  | BidirectionalAudioEncoder pyval pyval pyval
  | Decoder pyval pyval pyval pyval
  | attr brick string

text \<open>
  Theano variables are symbolic expressions. \<open>ones_like2\<close> \<open>v\<close> is
  \<^verbatim>\<open>tensor.ones((v.shape[0], v.shape[1]))\<close>, \<open>encoder_apply e args\<close> is
  \<^verbatim>\<open>e.apply(*args)\<close>, \<open>decoder_cost d r m y ym\<close> is \<^verbatim>\<open>d.cost(r, m, y, ym)\<close>,
  \<open>decoder_generate d r\<close> is \<^verbatim>\<open>d.generate(r)\<close> and \<open>item g i\<close> is \<^verbatim>\<open>g[i]\<close>.
\<close>

datatype tvar =
    lmatrix string
  | matrix string
  | ftensor3 string
  | ones_like2 tvar
  | encoder_apply brick "tvar list"
  | decoder_cost brick tvar tvar tvar tvar
  | decoder_generate brick tvar
  | item tvar nat

text \<open>A variable inside a computation graph, as the framework reports it.\<close>

record variable =
  name :: "string option"
  ident :: nat

datatype parameter = Parameter string

datatype graph =
    ComputationGraph tvar
  | apply_dropout graph "variable list" pyval
  | apply_noise graph "parameter list" pyval

datatype model = Model tvar

datatype data_stream = DataStream string

datatype initializer = IsotropicGaussian pyval | Constant int | Orthogonal

text \<open>The statements of the initialisation, in the order they run.\<close>

datatype init_step =
    set_weights_init brick initializer
  | set_biases_init brick initializer
  | push_initialization_config brick
  | initialize brick

datatype step_rule =
    StepClipping pyval
  | CompositeRule "step_rule list"
  | AdaDelta
  | PyObject string

text \<open>
  \<open>GradientDescent cost parameters step_rule on_unused_sources\<close>, and the extensions
  with their arguments in the order of the source's call:
  \<open>Sampler model data_stream src_vocab trg_vocab hook_samples every_n_batches src_vocab_size\<close>,
  \<open>F1Validator samples config model data_stream normalize every_n_batches\<close>,
  \<open>CheckpointNMT saveto every_n_batches\<close>, \<open>Plot title channels after_batch\<close>.
\<close>

datatype algorithm =
  GradientDescent (gd_cost: tvar) (gd_parameters: "parameter list")
    (gd_step_rule: step_rule) (gd_on_unused_sources: string)

datatype extension =
    is_FinishAfter: FinishAfter pyval
  | is_TrainingDataMonitoring: TrainingDataMonitoring "tvar list" bool
  | is_Printing: Printing bool
  | is_CheckpointNMT: CheckpointNMT pyval pyval
  | is_Sampler: Sampler model data_stream pyval pyval pyval pyval pyval
  | is_F1Validator: F1Validator variable config model data_stream pyval pyval
  | is_LoadNMT: LoadNMT pyval
  | is_Plot: Plot string "string list list" bool

datatype main_loop =
  MainLoop (loop_model: model) (loop_algorithm: algorithm)
    (loop_data_stream: data_stream) (loop_extensions: "extension list")

text \<open>
  What \<^verbatim>\<open>main\<close> asks of the world outside the file: the variables and the parameters
  of a graph (\<^verbatim>\<open>cg.intermediary_variables\<close>, \<^verbatim>\<open>cg.parameters\<close>), the parameters
  selected under a brick (\<^verbatim>\<open>Selector(b).get_params().values()\<close>), the variables a
  filter finds (\<^verbatim>\<open>VariableFilter(bricks=bs, name=n)(cg)\<close>), the value of
  \<^verbatim>\<open>eval(s)()\<close>, the run of the main loop, and the module's flag
  \<^verbatim>\<open>BOKEH_AVAILABLE\<close>, set when the module is imported. The calls that run
  arbitrary code may raise.
\<close>

record environment =
  intermediary_variables :: "graph \<Rightarrow> variable list"
  graph_parameters :: "graph \<Rightarrow> parameter list"
  get_params :: "brick \<Rightarrow> parameter list result"
  VariableFilter :: "brick list \<Rightarrow> string \<Rightarrow> graph \<Rightarrow> variable list"
  py_eval :: "string \<Rightarrow> step_rule result"
  run :: "main_loop \<Rightarrow> unit result"
  BOKEH_AVAILABLE :: bool

section \<open>The function main, section by section\<close>

text \<open>
  Lines 41 to 74: the variables and the model. The result is \<open>None\<close> when neither
  branch ran, which leaves \<^verbatim>\<open>encoder\<close>, \<^verbatim>\<open>decoder\<close> and \<^verbatim>\<open>cost\<close> unbound.
\<close>

definition construct_model :: "config \<Rightarrow> (brick \<times> brick \<times> tvar) option result" where
  "construct_model config =
     and_then (getitem config ''input'') (\<lambda>input.
     if py_eq input (PyStr ''words'') then
       let input_words = lmatrix ''words'';
           input_words_mask = matrix ''words_mask'';
           punctuation_marks = lmatrix ''punctuation_marks'';
           punctuation_marks_mask = matrix ''punctuation_marks_mask''
       in
       and_then (getitem config ''src_vocab_size'') (\<lambda>src_vocab_size.
       and_then (getitem config ''enc_embed'') (\<lambda>enc_embed.
       and_then (getitem config ''enc_nhids'') (\<lambda>enc_nhids.
       let encoder = BidirectionalEncoder src_vocab_size enc_embed enc_nhids in
       and_then (getitem config ''trg_vocab_size'') (\<lambda>trg_vocab_size.
       and_then (getitem config ''dec_embed'') (\<lambda>dec_embed.
       and_then (getitem config ''dec_nhids'') (\<lambda>dec_nhids.
       and_then (py_mul2 enc_nhids) (\<lambda>enc_nhids2.
       let decoder = Decoder trg_vocab_size dec_embed dec_nhids enc_nhids2;
           cost = decoder_cost decoder
                    (encoder_apply encoder [input_words, input_words_mask])
                    input_words_mask punctuation_marks punctuation_marks_mask
       in Inr (Some (encoder, decoder, cost)))))))))
     else if py_eq input (PyStr ''audio'') then
       let audio = ftensor3 ''audio'';
           audio_mask = matrix ''audio_mask'';
           words_ends = lmatrix ''words_ends'';
           words_ends_mask = matrix ''words_ends_mask'';
           punctuation_marks = lmatrix ''punctuation_marks'';
           punctuation_marks_mask = matrix ''punctuation_marks_mask''
       in
       and_then (getitem config ''audio_feat_size'') (\<lambda>audio_feat_size.
       and_then (getitem config ''enc_embed'') (\<lambda>enc_embed.
       and_then (getitem config ''enc_nhids'') (\<lambda>enc_nhids.
       let encoder = BidirectionalAudioEncoder audio_feat_size enc_embed enc_nhids in
       and_then (getitem config ''trg_vocab_size'') (\<lambda>trg_vocab_size.
       and_then (getitem config ''dec_embed'') (\<lambda>dec_embed.
       and_then (getitem config ''dec_nhids'') (\<lambda>dec_nhids.
       and_then (py_mul2 enc_nhids) (\<lambda>enc_nhids2.
       let decoder = Decoder trg_vocab_size dec_embed dec_nhids enc_nhids2;
           cost = decoder_cost decoder
                    (encoder_apply encoder [audio, audio_mask, words_ends, words_ends_mask])
                    punctuation_marks_mask punctuation_marks punctuation_marks_mask
       in Inr (Some (encoder, decoder, cost)))))))))
     else Inr None)"

text \<open>Lines 83 to 92: the initialisation of the two bricks.\<close>

definition initialize_model :: "config \<Rightarrow> brick \<Rightarrow> brick \<Rightarrow> init_step list result" where
  "initialize_model config encoder decoder =
     and_then (getitem config ''weight_scale'') (\<lambda>weight_scale.
     and_then (getitem config ''input'') (\<lambda>input.
     Inr ([set_weights_init encoder (IsotropicGaussian weight_scale),
           set_weights_init decoder (IsotropicGaussian weight_scale),
           set_biases_init encoder (Constant 0),
           set_biases_init decoder (Constant 0),
           push_initialization_config encoder,
           push_initialization_config decoder,
           set_weights_init (attr (attr encoder ''bidir'') ''prototype'') Orthogonal]
          @ (if py_eq input (PyStr ''audio'')
             then [set_weights_init (attr (attr encoder ''embedding'') ''prototype'') Orthogonal]
             else [])
          @ [set_weights_init (attr decoder ''transition'') Orthogonal,
             initialize encoder,
             initialize decoder])))"

text \<open>Lines 95 to 99: dropout.\<close>

definition dropout_section :: "environment \<Rightarrow> config \<Rightarrow> graph \<Rightarrow> graph result" where
  "dropout_section env config cg =
     and_then (getitem config ''dropout'') (\<lambda>dropout.
     if py_lt dropout 1 then
       let dropout_inputs =
             filter (\<lambda>x. name x = Some ''maxout_apply_output'') (intermediary_variables env cg)
       in and_then (getitem config ''dropout'') (\<lambda>dropout.
          Inr (apply_dropout cg dropout_inputs dropout))
     else Inr cg)"

text \<open>Lines 102 to 110: weight noise.\<close>

definition weight_noise_section ::
  "environment \<Rightarrow> config \<Rightarrow> brick \<Rightarrow> brick \<Rightarrow> graph \<Rightarrow> graph result" where
  "weight_noise_section env config encoder decoder cg =
     and_then (getitem config ''weight_noise_ff'') (\<lambda>weight_noise_ff.
     if py_gt weight_noise_ff 0 then
       and_then (get_params env (attr encoder ''lookup'')) (\<lambda>p1.
       and_then (get_params env (attr encoder ''fwd_fork'')) (\<lambda>p2.
       and_then (get_params env (attr encoder ''back_fork'')) (\<lambda>p3.
       let enc_params = p1 @ p2 @ p3 in
       and_then (get_params env (attr (attr decoder ''sequence_generator'') ''readout'')) (\<lambda>q1.
       and_then (get_params env (attr (attr decoder ''sequence_generator'') ''fork'')) (\<lambda>q2.
       and_then (get_params env (attr decoder ''state_init'')) (\<lambda>q3.
       let dec_params = q1 @ q2 @ q3 in
       and_then (getitem config ''weight_noise_ff'') (\<lambda>weight_noise_ff.
       Inr (apply_noise cg (enc_params @ dec_params) weight_noise_ff))))))))
     else Inr cg)"

text \<open>Lines 132 to 137: the extensions every run has.\<close>

definition set_extensions :: "config \<Rightarrow> tvar \<Rightarrow> extension list result" where
  "set_extensions config cost =
     and_then (getitem config ''finish_after'') (\<lambda>finish_after.
     and_then (getitem config ''saveto'') (\<lambda>saveto.
     and_then (getitem config ''save_freq'') (\<lambda>save_freq.
     Inr [FinishAfter finish_after,
          TrainingDataMonitoring [cost] True,
          Printing True,
          CheckpointNMT saveto save_freq])))"

text \<open>
  Lines 140 to 157: the graphs of beam search and sampling. The second operand of
  \<^verbatim>\<open>or\<close> is read only when the first is false. The result is the pair of
  \<^verbatim>\<open>search_model\<close> and \<^verbatim>\<open>samples\<close>, or \<open>None\<close> when the block is skipped.
\<close>

definition sampling_section ::
  "environment \<Rightarrow> config \<Rightarrow> brick \<Rightarrow> brick \<Rightarrow> (model \<times> variable) option result" where
  "sampling_section env config encoder decoder =
     and_then (getitem config ''hook_samples'') (\<lambda>hook_samples.
     and_then (if py_ge hook_samples 1 then Inr True
               else and_then (getitem config ''f1_validation'') (\<lambda>f1_validation.
                    Inr (f1_validation \<noteq> PyNone))) (\<lambda>needed.
     if needed then
       and_then (getitem config ''input'') (\<lambda>input.
       let sampling_representation =
             (if py_eq input (PyStr ''words'') then
                let sampling_input_words = lmatrix ''sampling_words'';
                    sampling_input_words_mask = ones_like2 sampling_input_words
                in Some (encoder_apply encoder [sampling_input_words, sampling_input_words_mask])
              else if py_eq input (PyStr ''audio'') then
                let sampling_audio = ftensor3 ''sampling_audio'';
                    sampling_audio_mask = ones_like2 sampling_audio;
                    sampling_words_ends = lmatrix ''sampling_words_ends'';
                    sampling_words_ends_mask = ones_like2 sampling_words_ends
                in Some (encoder_apply encoder
                           [sampling_audio, sampling_audio_mask,
                            sampling_words_ends, sampling_words_ends_mask])
              else None)
       in case sampling_representation of
            None \<Rightarrow> Inl (UnboundLocalError ''sampling_representation'')
          | Some rep \<Rightarrow>
              let generated = decoder_generate decoder rep;
                  search_model = Model generated
              in (case VariableFilter env [attr decoder ''sequence_generator''] ''outputs''
                         (ComputationGraph (item generated 1)) of
                    [_, samples] \<Rightarrow> Inr (Some (search_model, samples))
                  | _ \<Rightarrow> Inl (ValueError ''unpack'')))
     else Inr None))"

text \<open>Lines 160 to 167: the sampler.\<close>

definition add_sampling ::
  "config \<Rightarrow> data_stream \<Rightarrow> model option \<Rightarrow> extension list \<Rightarrow> extension list result" where
  "add_sampling config tr_stream search_model extensions =
     and_then (getitem config ''hook_samples'') (\<lambda>hook_samples.
     if py_ge hook_samples 1 then
       (case search_model of
          None \<Rightarrow> Inl (UnboundLocalError ''search_model'')
        | Some m \<Rightarrow>
            and_then (getitem config ''src_vocab'') (\<lambda>src_vocab.
            and_then (getitem config ''trg_vocab'') (\<lambda>trg_vocab.
            and_then (getitem config ''hook_samples'') (\<lambda>hook_samples.
            and_then (getitem config ''sampling_freq'') (\<lambda>sampling_freq.
            and_then (getitem config ''src_vocab_size'') (\<lambda>src_vocab_size.
            Inr (extensions @
                 [Sampler m tr_stream src_vocab trg_vocab hook_samples sampling_freq
                    src_vocab_size])))))))
     else Inr extensions)"

text \<open>Lines 170 to 176: validation by F1.\<close>

definition add_f1_validation ::
  "config \<Rightarrow> data_stream \<Rightarrow> model option \<Rightarrow> variable option \<Rightarrow> extension list
     \<Rightarrow> extension list result" where
  "add_f1_validation config dev_stream search_model samples extensions =
     and_then (getitem config ''f1_validation'') (\<lambda>f1_validation.
     if f1_validation \<noteq> PyNone then
       (case samples of
          None \<Rightarrow> Inl (UnboundLocalError ''samples'')
        | Some s \<Rightarrow>
            (case search_model of
               None \<Rightarrow> Inl (UnboundLocalError ''search_model'')
             | Some m \<Rightarrow>
                 and_then (getitem config ''normalized_f1'') (\<lambda>normalized_f1.
                 and_then (getitem config ''f1_val_freq'') (\<lambda>f1_val_freq.
                 Inr (extensions @
                      [F1Validator s config m dev_stream normalized_f1 f1_val_freq])))))
     else Inr extensions)"

text \<open>Lines 179 and 180: reloading.\<close>

definition add_reload :: "config \<Rightarrow> extension list \<Rightarrow> extension list result" where
  "add_reload config extensions =
     and_then (getitem config ''reload'') (\<lambda>reload.
     if truthy reload then
       and_then (getitem config ''saveto'') (\<lambda>saveto.
       Inr (extensions @ [LoadNMT saveto]))
     else Inr extensions)"

text \<open>Lines 183 to 186: the plot.\<close>

definition add_plot :: "environment \<Rightarrow> bool \<Rightarrow> extension list \<Rightarrow> extension list" where
  "add_plot env use_bokeh extensions =
     (if use_bokeh \<and> BOKEH_AVAILABLE env
      then extensions @ [Plot ''Cs-En'' [[''decoder_cost_cost'']] True]
      else extensions)"

text \<open>
  Lines 190 to 194: the training algorithm. \<^verbatim>\<open>eval\<close> of a value that is not a
  string raises TypeError.
\<close>

definition training_algorithm ::
  "environment \<Rightarrow> config \<Rightarrow> tvar \<Rightarrow> graph \<Rightarrow> algorithm result" where
  "training_algorithm env config cost cg =
     (let parameters = graph_parameters env cg in
      and_then (getitem config ''step_clipping'') (\<lambda>step_clipping.
      and_then (getitem config ''step_rule'') (\<lambda>step_rule.
      and_then (case step_rule of
                  PyStr s \<Rightarrow> py_eval env s
                | _ \<Rightarrow> Inl (TypeError ''eval() arg 1 must be a string or code object''))
        (\<lambda>rule.
      Inr (GradientDescent cost parameters
             (CompositeRule [StepClipping step_clipping, rule]) ''warn'')))))"

text \<open>
  The local variables of \<^verbatim>\<open>main\<close> when it is about to run the loop. \<open>search_model\<close>
  and \<open>samples\<close> are bound on one path only: \<open>None\<close> is an unbound local.
\<close>

record main_locals =
  encoder :: brick
  decoder :: brick
  cost :: tvar
  initialization :: "init_step list"
  cg :: graph
  training_model :: model
  search_model :: "model option"
  samples :: "variable option"
  extensions :: "extension list"
  algorithm :: algorithm
  main_loop :: main_loop

text \<open>
  Lines 36 to 203, everything before the loop runs. The log messages and the
  printing of the shapes (lines 113 to 124) bind nothing that is used later and
  are left out; an exception raised inside them, or inside a constructor of the
  framework, is outside the model.
\<close>

definition main_setup ::
  "environment \<Rightarrow> config \<Rightarrow> data_stream \<Rightarrow> data_stream \<Rightarrow> bool \<Rightarrow> main_locals result" where
  "main_setup env config tr_stream dev_stream use_bokeh =
     and_then (construct_model config) (\<lambda>built.
     case built of
       None \<Rightarrow> Inl (UnboundLocalError ''cost'')
     | Some bound \<Rightarrow>
         let (encoder, decoder, cost) = bound;
             cg0 = ComputationGraph cost
         in
         and_then (initialize_model config encoder decoder) (\<lambda>initialization.
         and_then (dropout_section env config cg0) (\<lambda>cg1.
         and_then (weight_noise_section env config encoder decoder cg1) (\<lambda>cg.
         let training_model = Model cost in
         and_then (set_extensions config cost) (\<lambda>extensions0.
         and_then (sampling_section env config encoder decoder) (\<lambda>sampling.
         let search_model = map_option fst sampling;
             samples = map_option snd sampling
         in
         and_then (add_sampling config tr_stream search_model extensions0) (\<lambda>extensions1.
         and_then (add_f1_validation config dev_stream search_model samples extensions1)
           (\<lambda>extensions2.
         and_then (add_reload config extensions2) (\<lambda>extensions3.
         let extensions = add_plot env use_bokeh extensions3 in
         and_then (training_algorithm env config cost cg) (\<lambda>algorithm.
         let main_loop = MainLoop training_model algorithm tr_stream extensions in
         Inr \<lparr> encoder = encoder, decoder = decoder, cost = cost,
               initialization = initialization, cg = cg,
               training_model = training_model,
               search_model = search_model, samples = samples,
               extensions = extensions, algorithm = algorithm,
               main_loop = main_loop \<rparr>))))))))))"

text \<open>
  The whole function: line 206 runs the loop. The model returns the locals the
  loop was run with.
\<close>

definition main ::
  "environment \<Rightarrow> config \<Rightarrow> data_stream \<Rightarrow> data_stream \<Rightarrow> bool \<Rightarrow> main_locals result" where
  "main env config tr_stream dev_stream use_bokeh =
     and_then (main_setup env config tr_stream dev_stream use_bokeh) (\<lambda>locals.
     and_then (run env (main_loop locals)) (\<lambda>_.
     Inr locals))"

section \<open>Observations on the objects built\<close>

text \<open>
  The dropout and the noise applied to a graph, innermost first, and the search
  model an extension was given.
\<close>

fun dropouts :: "graph \<Rightarrow> (variable list \<times> pyval) list" where
  "dropouts (ComputationGraph c) = []"
| "dropouts (apply_dropout g vs p) = dropouts g @ [(vs, p)]"
| "dropouts (apply_noise g ps l) = dropouts g"

fun noises :: "graph \<Rightarrow> (parameter list \<times> pyval) list" where
  "noises (ComputationGraph c) = []"
| "noises (apply_dropout g vs p) = noises g"
| "noises (apply_noise g ps l) = noises g @ [(ps, l)]"


section \<open>Two configurations\<close>

text \<open>
  A configuration for text input with every option on, in the style of the
  framework's examples, and an environment in which every call succeeds.
\<close>

definition example_config :: config where
  "example_config = map_of
     [(''input'', PyStr ''words''),
      (''src_vocab_size'', PyInt 30000),
      (''trg_vocab_size'', PyInt 5),
      (''enc_embed'', PyInt 620),
      (''dec_embed'', PyInt 620),
      (''enc_nhids'', PyInt 1000),
      (''dec_nhids'', PyInt 1000),
      (''weight_scale'', PyFloat (1 / 100)),
      (''dropout'', PyFloat (1 / 2)),
      (''weight_noise_ff'', PyFloat (1 / 100)),
      (''finish_after'', PyInt 1000000),
      (''saveto'', PyStr ''search_model''),
      (''save_freq'', PyInt 500),
      (''hook_samples'', PyInt 2),
      (''sampling_freq'', PyInt 13),
      (''src_vocab'', PyStr ''vocab.src.pkl''),
      (''trg_vocab'', PyStr ''vocab.trg.pkl''),
      (''f1_validation'', PyStr ''dev''),
      (''normalized_f1'', PyBool True),
      (''f1_val_freq'', PyInt 500),
      (''reload'', PyBool True),
      (''step_clipping'', PyFloat 1),
      (''step_rule'', PyStr ''AdaDelta'')]"

definition example_env :: environment where
  "example_env =
     \<lparr> intermediary_variables =
         (\<lambda>g. [\<lparr>name = Some ''maxout_apply_output'', ident = 0\<rparr>,
               \<lparr>name = None, ident = 1\<rparr>,
               \<lparr>name = Some ''readout_output'', ident = 2\<rparr>]),
       graph_parameters = (\<lambda>g. [Parameter ''W'']),
       get_params = (\<lambda>b. case b of attr _ n \<Rightarrow> Inr [Parameter n] | _ \<Rightarrow> Inr []),
       VariableFilter =
         (\<lambda>bs n g. [\<lparr>name = Some n, ident = 3\<rparr>, \<lparr>name = Some n, ident = 4\<rparr>]),
       py_eval = (\<lambda>s. if s = ''AdaDelta'' then Inr AdaDelta else Inl (Raised ''NameError'')),
       run = (\<lambda>l. Inr ()),
       BOKEH_AVAILABLE = False \<rparr>"

text \<open>
  A configuration for audio input with every option off, and the locals
  \<^verbatim>\<open>main\<close> reaches the loop with under the two configurations.
\<close>

definition audio_config :: config where
  "audio_config = example_config
     (''input'' \<mapsto> PyStr ''audio'',
      ''audio_feat_size'' \<mapsto> PyInt 39,
      ''dropout'' \<mapsto> PyFloat 1,
      ''weight_noise_ff'' \<mapsto> PyBool False,
      ''hook_samples'' \<mapsto> PyInt 0,
      ''f1_validation'' \<mapsto> PyNone,
      ''reload'' \<mapsto> PyBool False)"

definition example_locals :: main_locals where
  "example_locals =
     (let enc = BidirectionalEncoder (PyInt 30000) (PyInt 620) (PyInt 1000);
          dec = Decoder (PyInt 5) (PyInt 620) (PyInt 1000) (PyInt 2000);
          c = decoder_cost dec (encoder_apply enc [lmatrix ''words'', matrix ''words_mask''])
                (matrix ''words_mask'') (lmatrix ''punctuation_marks'')
                (matrix ''punctuation_marks_mask'');
          g = apply_noise
                (apply_dropout (ComputationGraph c)
                   [\<lparr>name = Some ''maxout_apply_output'', ident = 0\<rparr>] (PyFloat (1 / 2)))
                [Parameter ''lookup'', Parameter ''fwd_fork'', Parameter ''back_fork'',
                 Parameter ''readout'', Parameter ''fork'', Parameter ''state_init'']
                (PyFloat (1 / 100));
          sm = Model (decoder_generate dec
                 (encoder_apply enc
                    [lmatrix ''sampling_words'', ones_like2 (lmatrix ''sampling_words'')]));
          smp = \<lparr>name = Some ''outputs'', ident = 4\<rparr>;
          es = [FinishAfter (PyInt 1000000),
                TrainingDataMonitoring [c] True,
                Printing True,
                CheckpointNMT (PyStr ''search_model'') (PyInt 500),
                Sampler sm (DataStream ''train'') (PyStr ''vocab.src.pkl'')
                  (PyStr ''vocab.trg.pkl'') (PyInt 2) (PyInt 13) (PyInt 30000),
                F1Validator smp example_config sm (DataStream ''dev'') (PyBool True) (PyInt 500),
                LoadNMT (PyStr ''search_model'')];
          a = GradientDescent c [Parameter ''W'']
                (CompositeRule [StepClipping (PyFloat 1), AdaDelta]) ''warn''
      in \<lparr> encoder = enc, decoder = dec, cost = c,
            initialization =
              [set_weights_init enc (IsotropicGaussian (PyFloat (1 / 100))),
               set_weights_init dec (IsotropicGaussian (PyFloat (1 / 100))),
               set_biases_init enc (Constant 0),
               set_biases_init dec (Constant 0),
               push_initialization_config enc,
               push_initialization_config dec,
               set_weights_init (attr (attr enc ''bidir'') ''prototype'') Orthogonal,
               set_weights_init (attr dec ''transition'') Orthogonal,
               initialize enc,
               initialize dec],
            cg = g, training_model = Model c,
            search_model = Some sm, samples = Some smp,
            extensions = es, algorithm = a,
            main_loop = MainLoop (Model c) a (DataStream ''train'') es \<rparr>)"

definition audio_locals :: main_locals where
  "audio_locals =
     (let enc = BidirectionalAudioEncoder (PyInt 39) (PyInt 620) (PyInt 1000);
          dec = Decoder (PyInt 5) (PyInt 620) (PyInt 1000) (PyInt 2000);
          c = decoder_cost dec
                (encoder_apply enc
                   [ftensor3 ''audio'', matrix ''audio_mask'',
                    lmatrix ''words_ends'', matrix ''words_ends_mask''])
                (matrix ''punctuation_marks_mask'') (lmatrix ''punctuation_marks'')
                (matrix ''punctuation_marks_mask'');
          es = [FinishAfter (PyInt 1000000),
                TrainingDataMonitoring [c] True,
                Printing True,
                CheckpointNMT (PyStr ''search_model'') (PyInt 500)];
          a = GradientDescent c [Parameter ''W'']
                (CompositeRule [StepClipping (PyFloat 1), AdaDelta]) ''warn''
      in \<lparr> encoder = enc, decoder = dec, cost = c,
            initialization =
              [set_weights_init enc (IsotropicGaussian (PyFloat (1 / 100))),
               set_weights_init dec (IsotropicGaussian (PyFloat (1 / 100))),
               set_biases_init enc (Constant 0),
               set_biases_init dec (Constant 0),
               push_initialization_config enc,
               push_initialization_config dec,
               set_weights_init (attr (attr enc ''bidir'') ''prototype'') Orthogonal,
               set_weights_init (attr (attr enc ''embedding'') ''prototype'') Orthogonal,
               set_weights_init (attr dec ''transition'') Orthogonal,
               initialize enc,
               initialize dec],
            cg = ComputationGraph c, training_model = Model c,
            search_model = None, samples = None,
            extensions = es, algorithm = a,
            main_loop = MainLoop (Model c) a (DataStream ''train'') es \<rparr>)"

section \<open>Basic facts\<close>

lemma and_then_eq_Inr: "and_then m f = Inr y \<longleftrightarrow> (\<exists>x. m = Inr x \<and> f x = Inr y)"
  by (cases m) auto


lemma py_eq_PyStr: "py_eq v (PyStr s) \<longleftrightarrow> v = PyStr s"
  by (cases v) (auto simp: py_eq_def)





lemma main_setup_InrD:
  assumes "main_setup env config tr dev ub = Inr L"
  shows "\<exists>cg1 e0 smp e1 e2 e3.
     construct_model config = Inr (Some (encoder L, decoder L, cost L)) \<and>
     initialize_model config (encoder L) (decoder L) = Inr (initialization L) \<and>
     dropout_section env config (ComputationGraph (cost L)) = Inr cg1 \<and>
     weight_noise_section env config (encoder L) (decoder L) cg1 = Inr (cg L) \<and>
     training_model L = Model (cost L) \<and>
     set_extensions config (cost L) = Inr e0 \<and>
     sampling_section env config (encoder L) (decoder L) = Inr smp \<and>
     search_model L = map_option fst smp \<and>
     samples L = map_option snd smp \<and>
     add_sampling config tr (search_model L) e0 = Inr e1 \<and>
     add_f1_validation config dev (search_model L) (samples L) e1 = Inr e2 \<and>
     add_reload config e2 = Inr e3 \<and>
     extensions L = add_plot env ub e3 \<and>
     training_algorithm env config (cost L) (cg L) = Inr (algorithm L) \<and>
     main_loop L = MainLoop (training_model L) (algorithm L) tr (extensions L)"
  using assms
  by (auto simp: main_setup_def and_then_eq_Inr Let_def split: option.splits prod.splits)


lemma example_config_simps:
  "example_config ''input'' = Some (PyStr ''words'')"
  "example_config ''src_vocab_size'' = Some (PyInt 30000)"
  "example_config ''trg_vocab_size'' = Some (PyInt 5)"
  "example_config ''enc_embed'' = Some (PyInt 620)"
  "example_config ''dec_embed'' = Some (PyInt 620)"
  "example_config ''enc_nhids'' = Some (PyInt 1000)"
  "example_config ''dec_nhids'' = Some (PyInt 1000)"
  "example_config ''weight_scale'' = Some (PyFloat (1 / 100))"
  "example_config ''dropout'' = Some (PyFloat (1 / 2))"
  "example_config ''weight_noise_ff'' = Some (PyFloat (1 / 100))"
  "example_config ''finish_after'' = Some (PyInt 1000000)"
  "example_config ''saveto'' = Some (PyStr ''search_model'')"
  "example_config ''save_freq'' = Some (PyInt 500)"
  "example_config ''hook_samples'' = Some (PyInt 2)"
  "example_config ''sampling_freq'' = Some (PyInt 13)"
  "example_config ''src_vocab'' = Some (PyStr ''vocab.src.pkl'')"
  "example_config ''trg_vocab'' = Some (PyStr ''vocab.trg.pkl'')"
  "example_config ''f1_validation'' = Some (PyStr ''dev'')"
  "example_config ''normalized_f1'' = Some (PyBool True)"
  "example_config ''f1_val_freq'' = Some (PyInt 500)"
  "example_config ''reload'' = Some (PyBool True)"
  "example_config ''step_clipping'' = Some (PyFloat 1)"
  "example_config ''step_rule'' = Some (PyStr ''AdaDelta'')"
  by (simp_all add: example_config_def)

lemma audio_config_simps:
  "audio_config ''input'' = Some (PyStr ''audio'')"
  "audio_config ''audio_feat_size'' = Some (PyInt 39)"
  "audio_config ''trg_vocab_size'' = Some (PyInt 5)"
  "audio_config ''enc_embed'' = Some (PyInt 620)"
  "audio_config ''dec_embed'' = Some (PyInt 620)"
  "audio_config ''enc_nhids'' = Some (PyInt 1000)"
  "audio_config ''dec_nhids'' = Some (PyInt 1000)"
  "audio_config ''weight_scale'' = Some (PyFloat (1 / 100))"
  "audio_config ''dropout'' = Some (PyFloat 1)"
  "audio_config ''weight_noise_ff'' = Some (PyBool False)"
  "audio_config ''finish_after'' = Some (PyInt 1000000)"
  "audio_config ''saveto'' = Some (PyStr ''search_model'')"
  "audio_config ''save_freq'' = Some (PyInt 500)"
  "audio_config ''hook_samples'' = Some (PyInt 0)"
  "audio_config ''f1_validation'' = Some PyNone"
  "audio_config ''reload'' = Some (PyBool False)"
  "audio_config ''step_clipping'' = Some (PyFloat 1)"
  "audio_config ''step_rule'' = Some (PyStr ''AdaDelta'')"
  by (simp_all add: audio_config_def example_config_simps)

lemmas section_defs =
  main_setup_def construct_model_def initialize_model_def dropout_section_def
  weight_noise_section_def set_extensions_def sampling_section_def add_sampling_def
  add_f1_validation_def add_reload_def add_plot_def training_algorithm_def

lemma main_setup_example:
  "main_setup example_env example_config (DataStream ''train'') (DataStream ''dev'') False
     = Inr example_locals"
  by (simp add: section_defs getitem_def example_config_simps py_eq_def example_env_def
        example_locals_def Let_def)

lemma main_setup_audio:
  "main_setup example_env audio_config (DataStream ''train'') (DataStream ''dev'') True
     = Inr audio_locals"
  by (simp add: section_defs getitem_def audio_config_simps py_eq_def example_env_def
        audio_locals_def Let_def)


section \<open>What each section does when it succeeds\<close>

lemma and_then_getitem:
  "and_then (getitem config k) f = (case config k of None \<Rightarrow> Inl (KeyError k) | Some v \<Rightarrow> f v)"
  by (simp add: getitem_def split: option.splits)

lemma construct_model_other:
  "config ''input'' = Some v \<Longrightarrow> v \<noteq> PyStr ''words'' \<Longrightarrow> v \<noteq> PyStr ''audio'' \<Longrightarrow>
     construct_model config = Inr None"
  by (simp add: construct_model_def and_then_getitem py_eq_PyStr)

lemma construct_model_NoneD:
  "construct_model config = Inr None \<Longrightarrow>
     \<exists>v. config ''input'' = Some v \<and> v \<noteq> PyStr ''words'' \<and> v \<noteq> PyStr ''audio''"
  by (auto simp: construct_model_def and_then_getitem py_eq_PyStr and_then_eq_Inr Let_def
        split: option.splits if_splits)

lemma construct_model_SomeD:
  assumes "construct_model config = Inr (Some (e, d, c))"
  shows "\<exists>ee eh tv de dh eh2.
        config ''enc_embed'' = Some ee \<and> config ''enc_nhids'' = Some eh \<and>
        config ''trg_vocab_size'' = Some tv \<and> config ''dec_embed'' = Some de \<and>
        config ''dec_nhids'' = Some dh \<and> py_mul2 eh = Inr eh2 \<and>
        d = Decoder tv de dh eh2 \<and>
        ((config ''input'' = Some (PyStr ''words'') \<and>
          (\<exists>sv. config ''src_vocab_size'' = Some sv \<and> e = BidirectionalEncoder sv ee eh) \<and>
          c = decoder_cost d (encoder_apply e [lmatrix ''words'', matrix ''words_mask''])
                (matrix ''words_mask'') (lmatrix ''punctuation_marks'')
                (matrix ''punctuation_marks_mask''))
         \<or>
         (config ''input'' = Some (PyStr ''audio'') \<and>
          (\<exists>af. config ''audio_feat_size'' = Some af \<and> e = BidirectionalAudioEncoder af ee eh) \<and>
          c = decoder_cost d
                (encoder_apply e
                   [ftensor3 ''audio'', matrix ''audio_mask'',
                    lmatrix ''words_ends'', matrix ''words_ends_mask''])
                (matrix ''punctuation_marks_mask'') (lmatrix ''punctuation_marks'')
                (matrix ''punctuation_marks_mask'')))"
  using assms
  by (auto simp: construct_model_def and_then_getitem py_eq_PyStr and_then_eq_Inr Let_def
        split: option.splits if_splits)

lemma dropout_section_Inr:
  "dropout_section env config g = Inr g' \<longleftrightarrow>
     (\<exists>d. config ''dropout'' = Some d \<and>
        g' = (if py_lt d 1
              then apply_dropout g
                     (filter (\<lambda>x. name x = Some ''maxout_apply_output'')
                        (intermediary_variables env g)) d
              else g))"
  by (cases "config ''dropout''") (auto simp: dropout_section_def getitem_def Let_def)

lemma weight_noise_section_InrD:
  assumes "weight_noise_section env config e d g = Inr g'"
  shows "\<exists>wn. config ''weight_noise_ff'' = Some wn \<and>
        (if py_gt wn 0
         then \<exists>p1 p2 p3 q1 q2 q3.
                get_params env (attr e ''lookup'') = Inr p1 \<and>
                get_params env (attr e ''fwd_fork'') = Inr p2 \<and>
                get_params env (attr e ''back_fork'') = Inr p3 \<and>
                get_params env (attr (attr d ''sequence_generator'') ''readout'') = Inr q1 \<and>
                get_params env (attr (attr d ''sequence_generator'') ''fork'') = Inr q2 \<and>
                get_params env (attr d ''state_init'') = Inr q3 \<and>
                g' = apply_noise g ((p1 @ p2 @ p3) @ (q1 @ q2 @ q3)) wn
         else g' = g)"
  using assms
  by (auto simp: weight_noise_section_def and_then_getitem and_then_eq_Inr Let_def
        split: option.splits if_splits)

lemma eval_step_rule_Inr:
  "(case v of PyStr s \<Rightarrow> py_eval env s | _ \<Rightarrow> Inl t) = Inr r \<longleftrightarrow>
     (\<exists>s. v = PyStr s \<and> py_eval env s = Inr r)"
  by (cases v) auto

lemma training_algorithm_InrD:
  assumes "training_algorithm env config c g = Inr a"
  shows "\<exists>sc s r. config ''step_clipping'' = Some sc \<and> config ''step_rule'' = Some (PyStr s) \<and>
        py_eval env s = Inr r \<and>
        a = GradientDescent c (graph_parameters env g)
              (CompositeRule [StepClipping sc, r]) ''warn''"
  using assms
  by (auto simp: training_algorithm_def and_then_getitem and_then_eq_Inr eval_step_rule_Inr
        Let_def split: option.splits)



section \<open>Facts shared by the claims\<close>

lemma main_InrD:
  "main env config tr dev ub = Inr L \<Longrightarrow> main_setup env config tr dev ub = Inr L"
  by (auto simp: main_def and_then_eq_Inr)

lemma main_loop_fields:
  assumes "main_setup env config tr dev ub = Inr L"
  shows "loop_model (main_loop L) = training_model L"
    and "loop_algorithm (main_loop L) = algorithm L"
    and "loop_data_stream (main_loop L) = tr"
    and "loop_extensions (main_loop L) = extensions L"
  using main_setup_InrD [OF assms] by auto


lemma final_graph:
  assumes "main_setup env config tr dev ub = Inr L"
  shows "\<exists>d wn g1. config ''dropout'' = Some d \<and> config ''weight_noise_ff'' = Some wn \<and>
     g1 = (if py_lt d 1
           then apply_dropout (ComputationGraph (cost L))
                  (filter (\<lambda>x. name x = Some ''maxout_apply_output'')
                     (intermediary_variables env (ComputationGraph (cost L)))) d
           else ComputationGraph (cost L)) \<and>
     (if py_gt wn 0
      then \<exists>p1 p2 p3 q1 q2 q3.
             get_params env (attr (encoder L) ''lookup'') = Inr p1 \<and>
             get_params env (attr (encoder L) ''fwd_fork'') = Inr p2 \<and>
             get_params env (attr (encoder L) ''back_fork'') = Inr p3 \<and>
             get_params env (attr (attr (decoder L) ''sequence_generator'') ''readout'')
               = Inr q1 \<and>
             get_params env (attr (attr (decoder L) ''sequence_generator'') ''fork'')
               = Inr q2 \<and>
             get_params env (attr (decoder L) ''state_init'') = Inr q3 \<and>
             cg L = apply_noise g1 ((p1 @ p2 @ p3) @ (q1 @ q2 @ q3)) wn
      else cg L = g1)"
proof -
  from main_setup_InrD [OF assms] obtain cg1 where
    a: "dropout_section env config (ComputationGraph (cost L)) = Inr cg1"
    and b: "weight_noise_section env config (encoder L) (decoder L) cg1 = Inr (cg L)"
    by blast
  from a obtain d where d: "config ''dropout'' = Some d"
    "cg1 = (if py_lt d 1
           then apply_dropout (ComputationGraph (cost L))
                  (filter (\<lambda>x. name x = Some ''maxout_apply_output'')
                     (intermediary_variables env (ComputationGraph (cost L)))) d
           else ComputationGraph (cost L))"
    unfolding dropout_section_Inr by blast
  from weight_noise_section_InrD [OF b] d show ?thesis by blast
qed





section \<open>The claims\<close>

text \<open>
  The set-up of \<^verbatim>\<open>main\<close> completes when \<open>main_setup\<close> returns \<open>Inr\<close>; by
  \<open>main_InrD\<close> this is the case whenever \<^verbatim>\<open>main\<close> itself returns.
\<close>

subsection \<open>C1\<close>

text \<open>
  Claim C1. \<^verbatim>\<open>config['input']\<close> selects the branch that builds the model. Whenever the
  set-up of \<^verbatim>\<open>main\<close> completes, the input is \<^verbatim>\<open>"words"\<close> and the cost is the
  decoder's cost over a \<open>BidirectionalEncoder\<close> applied to the matrices of words and
  their mask, or the input is \<^verbatim>\<open>"audio"\<close> and the cost is the decoder's cost over a
  \<open>BidirectionalAudioEncoder\<close> applied to the audio, its mask, the ends of the words
  and their mask; this cost is the one of the training model and of the algorithm.
  There is no third branch: for any other input nothing is built.
\<close>

theorem C1_input_selects_branch:
  "(main_setup env config tr dev ub = Inr L \<longrightarrow>
      training_model L = Model (cost L) \<and> loop_model (main_loop L) = Model (cost L) \<and>
      gd_cost (algorithm L) = cost L \<and>
      (\<exists>ee eh tv de dh eh2.
        config ''enc_embed'' = Some ee \<and> config ''enc_nhids'' = Some eh \<and>
        config ''trg_vocab_size'' = Some tv \<and> config ''dec_embed'' = Some de \<and>
        config ''dec_nhids'' = Some dh \<and> py_mul2 eh = Inr eh2 \<and>
        decoder L = Decoder tv de dh eh2 \<and>
        ((config ''input'' = Some (PyStr ''words'') \<and>
          (\<exists>sv. config ''src_vocab_size'' = Some sv \<and>
                encoder L = BidirectionalEncoder sv ee eh) \<and>
          cost L = decoder_cost (decoder L)
                (encoder_apply (encoder L) [lmatrix ''words'', matrix ''words_mask''])
                (matrix ''words_mask'') (lmatrix ''punctuation_marks'')
                (matrix ''punctuation_marks_mask''))
         \<or>
         (config ''input'' = Some (PyStr ''audio'') \<and>
          (\<exists>af. config ''audio_feat_size'' = Some af \<and>
                encoder L = BidirectionalAudioEncoder af ee eh) \<and>
          cost L = decoder_cost (decoder L)
                (encoder_apply (encoder L)
                   [ftensor3 ''audio'', matrix ''audio_mask'',
                    lmatrix ''words_ends'', matrix ''words_ends_mask''])
                (matrix ''punctuation_marks_mask'') (lmatrix ''punctuation_marks'')
                (matrix ''punctuation_marks_mask''))))) \<and>
   (\<forall>v. config ''input'' = Some v \<and> v \<noteq> PyStr ''words'' \<and> v \<noteq> PyStr ''audio'' \<longrightarrow>
      construct_model config = Inr None)"
proof (intro conjI impI allI)
  assume a: "main_setup env config tr dev ub = Inr L"
  from main_setup_InrD [OF a] have
    c: "construct_model config = Inr (Some (encoder L, decoder L, cost L))"
    and t: "training_model L = Model (cost L)"
    and g: "training_algorithm env config (cost L) (cg L) = Inr (algorithm L)"
    by blast+
  show "training_model L = Model (cost L)" by (rule t)
  show "loop_model (main_loop L) = Model (cost L)"
    using main_loop_fields(1) [OF a] t by simp
  show "gd_cost (algorithm L) = cost L"
    using training_algorithm_InrD [OF g] by auto
  show "\<exists>ee eh tv de dh eh2.
        config ''enc_embed'' = Some ee \<and> config ''enc_nhids'' = Some eh \<and>
        config ''trg_vocab_size'' = Some tv \<and> config ''dec_embed'' = Some de \<and>
        config ''dec_nhids'' = Some dh \<and> py_mul2 eh = Inr eh2 \<and>
        decoder L = Decoder tv de dh eh2 \<and>
        ((config ''input'' = Some (PyStr ''words'') \<and>
          (\<exists>sv. config ''src_vocab_size'' = Some sv \<and>
                encoder L = BidirectionalEncoder sv ee eh) \<and>
          cost L = decoder_cost (decoder L)
                (encoder_apply (encoder L) [lmatrix ''words'', matrix ''words_mask''])
                (matrix ''words_mask'') (lmatrix ''punctuation_marks'')
                (matrix ''punctuation_marks_mask''))
         \<or>
         (config ''input'' = Some (PyStr ''audio'') \<and>
          (\<exists>af. config ''audio_feat_size'' = Some af \<and>
                encoder L = BidirectionalAudioEncoder af ee eh) \<and>
          cost L = decoder_cost (decoder L)
                (encoder_apply (encoder L)
                   [ftensor3 ''audio'', matrix ''audio_mask'',
                    lmatrix ''words_ends'', matrix ''words_ends_mask''])
                (matrix ''punctuation_marks_mask'') (lmatrix ''punctuation_marks'')
                (matrix ''punctuation_marks_mask'')))"
    by (rule construct_model_SomeD [OF c])
next
  fix v
  assume "config ''input'' = Some v \<and> v \<noteq> PyStr ''words'' \<and> v \<noteq> PyStr ''audio''"
  then show "construct_model config = Inr None"
    by (simp add: construct_model_other)
qed

text \<open>
  The theorem at three configurations: text input, audio input, and an input that is neither.
\<close>

theorem C1_input_selects_branch_witness:
  "main_setup example_env example_config (DataStream ''train'') (DataStream ''dev'') False
     = Inr example_locals \<and>
   example_config ''input'' = Some (PyStr ''words'') \<and>
   encoder example_locals = BidirectionalEncoder (PyInt 30000) (PyInt 620) (PyInt 1000) \<and>
   main_setup example_env audio_config (DataStream ''train'') (DataStream ''dev'') True
     = Inr audio_locals \<and>
   audio_config ''input'' = Some (PyStr ''audio'') \<and>
   encoder audio_locals = BidirectionalAudioEncoder (PyInt 39) (PyInt 620) (PyInt 1000) \<and>
   (example_config(''input'' \<mapsto> PyStr ''text'')) ''input'' = Some (PyStr ''text'') \<and>
   construct_model (example_config(''input'' \<mapsto> PyStr ''text'')) = Inr None"
  using
    C1_input_selects_branch [of example_env example_config "DataStream ''train''"
      "DataStream ''dev''" False example_locals]
    C1_input_selects_branch [of example_env audio_config "DataStream ''train''"
      "DataStream ''dev''" True audio_locals]
    C1_input_selects_branch [of example_env "example_config(''input'' \<mapsto> PyStr ''text'')"
      "DataStream ''train''" "DataStream ''dev''" False example_locals]
    main_setup_example main_setup_audio
  by (auto simp: example_config_simps audio_config_simps)

subsection \<open>C2\<close>



subsection \<open>C3\<close>



subsection \<open>C4\<close>



subsection \<open>C5\<close>

text \<open>
  Claim C5. Whenever the set-up of \<^verbatim>\<open>main\<close> completes, dropout has been applied to
  the graph of the cost if and only if \<^verbatim>\<open>config['dropout'] < 1.0\<close>, and then once, to
  exactly the intermediary variables of that graph named
  \<^verbatim>\<open>maxout_apply_output\<close>, with \<^verbatim>\<open>config['dropout']\<close>; the final graph is this one,
  with or without noise on top, and its parameters are the ones the algorithm gets.
\<close>

theorem C5_dropout:
  assumes "main_setup env config tr dev ub = Inr L"
  shows "\<exists>d g1. config ''dropout'' = Some d \<and>
     g1 = (if py_lt d 1
           then apply_dropout (ComputationGraph (cost L))
                  (filter (\<lambda>x. name x = Some ''maxout_apply_output'')
                     (intermediary_variables env (ComputationGraph (cost L)))) d
           else ComputationGraph (cost L)) \<and>
     (cg L = g1 \<or> (\<exists>ps wn. cg L = apply_noise g1 ps wn)) \<and>
     dropouts (cg L) =
       (if py_lt d 1
        then [(filter (\<lambda>x. name x = Some ''maxout_apply_output'')
                 (intermediary_variables env (ComputationGraph (cost L))), d)]
        else []) \<and>
     gd_parameters (algorithm L) = graph_parameters env (cg L)"
proof -
  from final_graph [OF assms] obtain d wn g1 where
    d: "config ''dropout'' = Some d"
    and g1: "g1 = (if py_lt d 1
           then apply_dropout (ComputationGraph (cost L))
                  (filter (\<lambda>x. name x = Some ''maxout_apply_output'')
                     (intermediary_variables env (ComputationGraph (cost L)))) d
           else ComputationGraph (cost L))"
    and n: "if py_gt wn 0
      then \<exists>p1 p2 p3 q1 q2 q3.
             get_params env (attr (encoder L) ''lookup'') = Inr p1 \<and>
             get_params env (attr (encoder L) ''fwd_fork'') = Inr p2 \<and>
             get_params env (attr (encoder L) ''back_fork'') = Inr p3 \<and>
             get_params env (attr (attr (decoder L) ''sequence_generator'') ''readout'')
               = Inr q1 \<and>
             get_params env (attr (attr (decoder L) ''sequence_generator'') ''fork'')
               = Inr q2 \<and>
             get_params env (attr (decoder L) ''state_init'') = Inr q3 \<and>
             cg L = apply_noise g1 ((p1 @ p2 @ p3) @ (q1 @ q2 @ q3)) wn
      else cg L = g1"
    by blast
  have shape: "cg L = g1 \<or> (\<exists>ps wn. cg L = apply_noise g1 ps wn)"
    using n by (auto split: if_splits)
  have "dropouts (cg L) = dropouts g1"
    using shape by auto
  also have "\<dots> = (if py_lt d 1
        then [(filter (\<lambda>x. name x = Some ''maxout_apply_output'')
                 (intermediary_variables env (ComputationGraph (cost L))), d)]
        else [])"
    by (simp add: g1)
  finally have dr: "dropouts (cg L) = (if py_lt d 1
        then [(filter (\<lambda>x. name x = Some ''maxout_apply_output'')
                 (intermediary_variables env (ComputationGraph (cost L))), d)]
        else [])" .
  from main_setup_InrD [OF assms] have
    "training_algorithm env config (cost L) (cg L) = Inr (algorithm L)" by blast
  from training_algorithm_InrD [OF this]
  have p: "gd_parameters (algorithm L) = graph_parameters env (cg L)" by auto
  show ?thesis using d g1 shape dr p by blast
qed

text \<open>
  The theorem at the two configurations: every option on, and every option off.
\<close>

theorem C5_dropout_witness:
  "main_setup example_env example_config (DataStream ''train'') (DataStream ''dev'') False
     = Inr example_locals \<and>
   py_lt (PyFloat (1 / 2)) 1 \<and>
   dropouts (cg example_locals) =
     [([\<lparr>name = Some ''maxout_apply_output'', ident = 0\<rparr>], PyFloat (1 / 2))] \<and>
   main_setup example_env audio_config (DataStream ''train'') (DataStream ''dev'') True
     = Inr audio_locals \<and>
   \<not> py_lt (PyFloat 1) 1 \<and>
   dropouts (cg audio_locals) = []"
  using C5_dropout [OF main_setup_example] C5_dropout [OF main_setup_audio]
    main_setup_example main_setup_audio
  by (auto simp: example_config_simps audio_config_simps example_env_def)

subsection \<open>C6\<close>

text \<open>
  Claim C6. Whenever the set-up of \<^verbatim>\<open>main\<close> completes, noise has been applied to the
  graph if and only if \<^verbatim>\<open>config['weight_noise_ff'] > 0.0\<close>, and then once, at level
  \<^verbatim>\<open>config['weight_noise_ff']\<close>, to exactly the parameters of the encoder's
  \<^verbatim>\<open>lookup\<close>, \<^verbatim>\<open>fwd_fork\<close> and \<^verbatim>\<open>back_fork\<close> followed by those of the readout
  and the fork of the decoder's sequence generator and of the decoder's
  \<^verbatim>\<open>state_init\<close>.
\<close>

theorem C6_weight_noise:
  assumes "main_setup env config tr dev ub = Inr L"
  shows "\<exists>wn. config ''weight_noise_ff'' = Some wn \<and>
     (if py_gt wn 0
      then \<exists>p1 p2 p3 q1 q2 q3 g1.
             get_params env (attr (encoder L) ''lookup'') = Inr p1 \<and>
             get_params env (attr (encoder L) ''fwd_fork'') = Inr p2 \<and>
             get_params env (attr (encoder L) ''back_fork'') = Inr p3 \<and>
             get_params env (attr (attr (decoder L) ''sequence_generator'') ''readout'')
               = Inr q1 \<and>
             get_params env (attr (attr (decoder L) ''sequence_generator'') ''fork'')
               = Inr q2 \<and>
             get_params env (attr (decoder L) ''state_init'') = Inr q3 \<and>
             cg L = apply_noise g1 (p1 @ p2 @ p3 @ q1 @ q2 @ q3) wn \<and>
             noises (cg L) = [(p1 @ p2 @ p3 @ q1 @ q2 @ q3, wn)]
      else noises (cg L) = []) \<and>
     gd_parameters (algorithm L) = graph_parameters env (cg L)"
proof -
  from final_graph [OF assms] obtain d wn g1 where
    w: "config ''weight_noise_ff'' = Some wn"
    and g1: "g1 = (if py_lt d 1
           then apply_dropout (ComputationGraph (cost L))
                  (filter (\<lambda>x. name x = Some ''maxout_apply_output'')
                     (intermediary_variables env (ComputationGraph (cost L)))) d
           else ComputationGraph (cost L))"
    and n: "if py_gt wn 0
      then \<exists>p1 p2 p3 q1 q2 q3.
             get_params env (attr (encoder L) ''lookup'') = Inr p1 \<and>
             get_params env (attr (encoder L) ''fwd_fork'') = Inr p2 \<and>
             get_params env (attr (encoder L) ''back_fork'') = Inr p3 \<and>
             get_params env (attr (attr (decoder L) ''sequence_generator'') ''readout'')
               = Inr q1 \<and>
             get_params env (attr (attr (decoder L) ''sequence_generator'') ''fork'')
               = Inr q2 \<and>
             get_params env (attr (decoder L) ''state_init'') = Inr q3 \<and>
             cg L = apply_noise g1 ((p1 @ p2 @ p3) @ (q1 @ q2 @ q3)) wn
      else cg L = g1"
    by blast
  have z: "noises g1 = []" by (simp add: g1)
  have body: "if py_gt wn 0
      then \<exists>p1 p2 p3 q1 q2 q3 g1.
             get_params env (attr (encoder L) ''lookup'') = Inr p1 \<and>
             get_params env (attr (encoder L) ''fwd_fork'') = Inr p2 \<and>
             get_params env (attr (encoder L) ''back_fork'') = Inr p3 \<and>
             get_params env (attr (attr (decoder L) ''sequence_generator'') ''readout'')
               = Inr q1 \<and>
             get_params env (attr (attr (decoder L) ''sequence_generator'') ''fork'')
               = Inr q2 \<and>
             get_params env (attr (decoder L) ''state_init'') = Inr q3 \<and>
             cg L = apply_noise g1 (p1 @ p2 @ p3 @ q1 @ q2 @ q3) wn \<and>
             noises (cg L) = [(p1 @ p2 @ p3 @ q1 @ q2 @ q3, wn)]
      else noises (cg L) = []"
  proof (cases "py_gt wn 0")
    case True
    with n obtain p1 p2 p3 q1 q2 q3 where
      p: "get_params env (attr (encoder L) ''lookup'') = Inr p1"
         "get_params env (attr (encoder L) ''fwd_fork'') = Inr p2"
         "get_params env (attr (encoder L) ''back_fork'') = Inr p3"
         "get_params env (attr (attr (decoder L) ''sequence_generator'') ''readout'')
            = Inr q1"
         "get_params env (attr (attr (decoder L) ''sequence_generator'') ''fork'')
            = Inr q2"
         "get_params env (attr (decoder L) ''state_init'') = Inr q3"
      and c: "cg L = apply_noise g1 ((p1 @ p2 @ p3) @ (q1 @ q2 @ q3)) wn"
      by auto
    have c': "cg L = apply_noise g1 (p1 @ p2 @ p3 @ q1 @ q2 @ q3) wn"
      using c by simp
    have "noises (cg L) = [(p1 @ p2 @ p3 @ q1 @ q2 @ q3, wn)]"
      by (simp add: c' z)
    with p c' True show ?thesis by auto
  next
    case False
    with n z show ?thesis by simp
  qed
  from main_setup_InrD [OF assms] have
    "training_algorithm env config (cost L) (cg L) = Inr (algorithm L)" by blast
  from training_algorithm_InrD [OF this]
  have p: "gd_parameters (algorithm L) = graph_parameters env (cg L)" by auto
  show ?thesis using w body p by blast
qed

text \<open>
  The theorem at the two configurations: every option on, and every option off.
\<close>

theorem C6_weight_noise_witness:
  "main_setup example_env example_config (DataStream ''train'') (DataStream ''dev'') False
     = Inr example_locals \<and>
   py_gt (PyFloat (1 / 100)) 0 \<and>
   noises (cg example_locals) =
     [([Parameter ''lookup'', Parameter ''fwd_fork'', Parameter ''back_fork'',
        Parameter ''readout'', Parameter ''fork'', Parameter ''state_init''],
       PyFloat (1 / 100))] \<and>
   main_setup example_env audio_config (DataStream ''train'') (DataStream ''dev'') True
     = Inr audio_locals \<and>
   \<not> py_gt (PyBool False) 0 \<and>
   noises (cg audio_locals) = []"
  using C6_weight_noise [OF main_setup_example] C6_weight_noise [OF main_setup_audio]
    main_setup_example main_setup_audio
  by (auto simp: example_config_simps audio_config_simps example_env_def)

subsection \<open>C7\<close>



subsection \<open>C8\<close>



subsection \<open>C9\<close>



subsection \<open>C10\<close>

text \<open>
  Claim C10. Whenever the set-up of \<^verbatim>\<open>main\<close> completes, the step rule of the
  algorithm is the composite of \<open>StepClipping\<close> of \<^verbatim>\<open>config['step_clipping']\<close>
  followed by the value of \<^verbatim>\<open>eval(config['step_rule'])()\<close>. Whatever string the
  configuration holds there is evaluated: the algorithm is built from the value if
  there is one, and the exception of the evaluation ends the construction.
\<close>

theorem C10_step_rule:
  "(main_setup env config tr dev ub = Inr L \<longrightarrow>
      (\<exists>sc s r. config ''step_clipping'' = Some sc \<and> config ''step_rule'' = Some (PyStr s) \<and>
         py_eval env s = Inr r \<and>
         gd_step_rule (algorithm L) = CompositeRule [StepClipping sc, r] \<and>
         loop_algorithm (main_loop L) = algorithm L)) \<and>
   (\<forall>sc s. config ''step_clipping'' = Some sc \<and> config ''step_rule'' = Some (PyStr s) \<longrightarrow>
      training_algorithm env config c g =
        and_then (py_eval env s) (\<lambda>r.
          Inr (GradientDescent c (graph_parameters env g)
                 (CompositeRule [StepClipping sc, r]) ''warn'')))"
proof (intro conjI impI allI)
  assume a: "main_setup env config tr dev ub = Inr L"
  from main_setup_InrD [OF a] have
    "training_algorithm env config (cost L) (cg L) = Inr (algorithm L)" by blast
  from training_algorithm_InrD [OF this] main_loop_fields(2) [OF a]
  show "\<exists>sc s r. config ''step_clipping'' = Some sc \<and> config ''step_rule'' = Some (PyStr s) \<and>
         py_eval env s = Inr r \<and>
         gd_step_rule (algorithm L) = CompositeRule [StepClipping sc, r] \<and>
         loop_algorithm (main_loop L) = algorithm L"
    by auto
next
  fix sc s
  assume "config ''step_clipping'' = Some sc \<and> config ''step_rule'' = Some (PyStr s)"
  then show "training_algorithm env config c g =
        and_then (py_eval env s) (\<lambda>r.
          Inr (GradientDescent c (graph_parameters env g)
                 (CompositeRule [StepClipping sc, r]) ''warn''))"
    by (simp add: training_algorithm_def and_then_getitem)
qed

text \<open>
  The theorem at a configuration whose step rule evaluates, and at one whose step rule raises in the example environment.
\<close>

theorem C10_step_rule_witness:
  "main_setup example_env example_config (DataStream ''train'') (DataStream ''dev'') False
     = Inr example_locals \<and>
   py_eval example_env ''AdaDelta'' = Inr AdaDelta \<and>
   gd_step_rule (algorithm example_locals) =
     CompositeRule [StepClipping (PyFloat 1), AdaDelta] \<and>
   (example_config(''step_rule'' \<mapsto> PyStr ''os.getcwd'')) ''step_rule''
     = Some (PyStr ''os.getcwd'') \<and>
   training_algorithm example_env
     (example_config(''step_rule'' \<mapsto> PyStr ''os.getcwd''))
     (cost example_locals) (cg example_locals) = Inl (Raised ''NameError'')"
  using
    C10_step_rule [of example_env example_config "DataStream ''train''" "DataStream ''dev''"
      False example_locals "cost example_locals" "cg example_locals"]
    C10_step_rule [of example_env
      "example_config(''step_rule'' \<mapsto> PyStr ''os.getcwd'')"
      "DataStream ''train''" "DataStream ''dev''"
      False example_locals "cost example_locals" "cg example_locals"]
    main_setup_example
  by (auto simp: example_config_simps example_env_def)

end
